theory Spec2Isabelle
  imports Main
begin

section \<open>Python values\<close>

text \<open>
  A Python \<open>str\<close> is a sequence of Unicode code points, and the script detection of
  \<open>reshape_rtl\<close> compares code points up to U+08FF, so a string is a list of code
  points (natural numbers), not a list of 8-bit characters. \<open>ustr\<close> writes an ASCII
  literal of the source as such a list.
\<close>

type_synonym codepoint = nat
type_synonym pystr = "codepoint list"

definition ustr :: "string \<Rightarrow> pystr" where
  "ustr s = map of_char s"

text \<open>
  A cell is what \<open>r.tolist()\<close> and \<open>df.columns.tolist()\<close> hand to the code: the code
  only asks a cell whether it is \<open>None\<close>, whether \<open>pd.isna\<close> holds of it, and for its
  \<open>str()\<close>. \<open>COther t\<close> is any other scalar that is not missing (a float, a
  timestamp), carried by the text \<open>str()\<close> gives for it.
\<close>

datatype cell = CNone | CNaN | CStr pystr | CInt int | CBool bool | COther pystr

fun nat_str :: "nat \<Rightarrow> pystr" where
  "nat_str n = (if n < 10 then [48 + n] else nat_str (n div 10) @ [48 + n mod 10])"

declare nat_str.simps [simp del]

definition int_str :: "int \<Rightarrow> pystr" where
  "int_str i = (if i < 0 then 45 # nat_str (nat (- i)) else nat_str (nat i))"

text \<open>\<open>str(text)\<close>: \<open>str(None)\<close> is \<open>'None'\<close> and \<open>str(float('nan'))\<close> is \<open>'nan'\<close>.\<close>

fun py_str :: "cell \<Rightarrow> pystr" where
  "py_str CNone = ustr ''None''"
| "py_str CNaN = ustr ''nan''"
| "py_str (CStr s) = s"
| "py_str (CInt i) = int_str i"
| "py_str (CBool b) = (if b then ustr ''True'' else ustr ''False'')"
| "py_str (COther t) = t"

text \<open>\<open>pd.isna(cell)\<close> on a scalar: true of \<open>None\<close> and of NaN.\<close>

fun isna :: "cell \<Rightarrow> bool" where
  "isna CNone = True"
| "isna CNaN = True"
| "isna _ = False"

text \<open>An exception is carried by its \<open>str()\<close>.\<close>

datatype exn = Exn pystr

section \<open>Pages and documents\<close>

text \<open>
  A page size is ReportLab's pair (width, height), here in millimetres: \<open>A4\<close> is
  \<open>(210*mm, 297*mm)\<close>, and \<open>landscape\<close> returns the pair with the longer side first.
\<close>

type_synonym page_size = "nat \<times> nat"

definition A4 :: page_size where
  "A4 = (210, 297)"

definition landscape :: "page_size \<Rightarrow> page_size" where
  "landscape p = (case p of (a, b) \<Rightarrow> if a < b then (b, a) else (a, b))"

text \<open>
  What is handed to ReportLab for one sheet: the page size of the document template, the
  text of the title paragraph and the texts of the cell paragraphs of the table (its
  first row repeated on every page). The fixed margins, fonts and colours are left out.
\<close>

record document =
  pagesize :: page_size
  title :: pystr
  table_data :: "pystr list list"

section \<open>The libraries\<close>

text \<open>
  \<open>arabic_reshaper.reshape\<close> and \<open>bidi.algorithm.get_display\<close> are third-party
  libraries; the source passes a string through them and returns what they give. So is
  ReportLab, whose calls can raise: \<open>Paragraph L text\<close> is the exception that
  \<open>Paragraph(text, style)\<close> raises (on text that does not parse as its markup), if
  any, and \<open>doc_build L doc\<close> the exception that building the table and
  \<open>doc.build(elements)\<close> raise (a row too tall for a page, too many columns), if any.
  The libraries are parameters of the model, bundled in one record.
\<close>

record libs =
  reshape :: "pystr \<Rightarrow> pystr"
  get_display :: "pystr \<Rightarrow> pystr"
  Paragraph :: "pystr \<Rightarrow> exn option"
  doc_build :: "document \<Rightarrow> exn option"

section \<open>The text shaper \<open>reshape_rtl\<close>\<close>

text \<open>
  The test of line 64 on one character \<open>ch\<close>: Python compares one-character strings
  by code point, and the three ranges are U+0600 to U+06FF, U+0750 to U+077F and U+08A0
  to U+08FF.
\<close>

definition is_arabic :: "codepoint \<Rightarrow> bool" where
  "is_arabic ch =
     (0x0600 \<le> ch \<and> ch \<le> 0x06FF \<or> 0x0750 \<le> ch \<and> ch \<le> 0x077F \<or> 0x08A0 \<le> ch \<and> ch \<le> 0x08FF)"

definition reshape_rtl :: "libs \<Rightarrow> cell \<Rightarrow> pystr" where
  "reshape_rtl L text =
     (if text = CNone then []
      else
        let s = py_str text in
        if list_ex is_arabic s then
          let reshaped = reshape L s;
              bidi_text = get_display L reshaped
          in bidi_text
        else s)"

section \<open>\<open>df_to_table_data\<close>\<close>

text \<open>
  A DataFrame as the code reads it: the column labels (\<open>df.columns.tolist()\<close>) and the
  data rows in order (\<open>df.iterrows()\<close>, each \<open>r.tolist()\<close>). pandas takes the first
  row of a sheet for the labels, so the data rows are the rows below the header row.
\<close>

record dataframe =
  columns :: "cell list"
  rows :: "cell list list"

text \<open>The inner loop of lines 82 to 86, \<open>row\<close> being the list appended to.\<close>

fun shape_cells :: "libs \<Rightarrow> cell list \<Rightarrow> pystr list \<Rightarrow> pystr list" where
  "shape_cells L [] row = row"
| "shape_cells L (cell # cells) row =
     shape_cells L cells (if isna cell then row @ [[]] else row @ [reshape_rtl L cell])"

text \<open>The outer loop of lines 80 to 87, \<open>acc\<close> being the list \<open>rows\<close> of the source.\<close>

fun shape_rows :: "libs \<Rightarrow> cell list list \<Rightarrow> pystr list list \<Rightarrow> pystr list list" where
  "shape_rows L [] acc = acc"
| "shape_rows L (r # rs) acc = shape_rows L rs (acc @ [shape_cells L r []])"

definition df_to_table_data :: "libs \<Rightarrow> dataframe \<Rightarrow> pystr list list" where
  "df_to_table_data L df =
     (let headers = map (reshape_rtl L) (columns df);
          rws = shape_rows L (rows df) []
      in [headers] @ rws)"

section \<open>\<open>sanitize_filename\<close>\<close>

text \<open>
  The string \<open>invalid\<close> of line 51, as code points: backslash, slash, colon, asterisk,
  question mark, double quote, less-than, greater-than, vertical bar.
\<close>

definition invalid :: pystr where
  "invalid = [92, 47, 58, 42, 63, 34, 60, 62, 124]"

text \<open>
  \<open>str.strip()\<close> with no argument removes leading and trailing whitespace, the
  characters of which \<open>str.isspace\<close> holds: U+0009 to U+000D, U+001C to U+0020, U+0085,
  U+00A0, U+1680, U+2000 to U+200A, U+2028, U+2029, U+202F, U+205F and U+3000.
\<close>

definition py_isspace :: "codepoint \<Rightarrow> bool" where
  "py_isspace ch =
     (0x09 \<le> ch \<and> ch \<le> 0x0D \<or> 0x1C \<le> ch \<and> ch \<le> 0x20 \<or> ch = 0x85 \<or> ch = 0xA0 \<or>
      ch = 0x1680 \<or> 0x2000 \<le> ch \<and> ch \<le> 0x200A \<or> ch = 0x2028 \<or> ch = 0x2029 \<or>
      ch = 0x202F \<or> ch = 0x205F \<or> ch = 0x3000)"

definition strip :: "pystr \<Rightarrow> pystr" where
  "strip s = rev (dropWhile py_isspace (rev (dropWhile py_isspace s)))"

definition sanitize_filename :: "pystr \<Rightarrow> pystr" where
  "sanitize_filename name =
     (let s = strip (filter (\<lambda>c. c \<notin> set invalid) name)
      in if s = [] then ustr ''sheet'' else s)"

section \<open>Rendering one sheet\<close>

text \<open>
  Lines 150 to 156. \<open>data[0]\<close> raises IndexError on an empty list, and the
  \<open>except\<close> branch then keeps A4.
\<close>

definition choose_page_size :: "pystr list list \<Rightarrow> page_size" where
  "choose_page_size data =
     (case data of
        [] \<Rightarrow> A4
      | header # _ \<Rightarrow> if length header > 6 then landscape A4 else A4)"

text \<open>\<open>cell.replace("\n", "<br/>")\<close>: every line feed becomes the five characters of the tag.\<close>

definition replace_newlines :: "pystr \<Rightarrow> pystr" where
  "replace_newlines cell = concat (map (\<lambda>c. if c = 10 then ustr ''<br/>'' else [c]) cell)"

text \<open>The first exception raised when \<open>f\<close> is called on the elements in order.\<close>

fun first_raise :: "('a \<Rightarrow> exn option) \<Rightarrow> 'a list \<Rightarrow> exn option" where
  "first_raise f [] = None"
| "first_raise f (x # xs) = (case f x of Some e \<Rightarrow> Some e | None \<Rightarrow> first_raise f xs)"

text \<open>
  Lines 148 to 210 for one sheet. The page size is chosen first; then a paragraph is
  made of every cell, row by row (line 181), then of the shaped title (line 205), then
  the document is built (line 210). None of these calls stands in a \<open>try\<close>, so the
  first exception leaves the loop and the route; the document is written only when none
  is raised.
\<close>

definition build_document :: "libs \<Rightarrow> pystr \<Rightarrow> pystr list list \<Rightarrow> exn + document" where
  "build_document L sheet_name data =
     (let page_size = choose_page_size data;
          cells = map (map replace_newlines) data
      in case first_raise (Paragraph L) (concat cells) of
           Some e \<Rightarrow> Inl e
         | None \<Rightarrow>
             let display_title = reshape_rtl L (CStr sheet_name)
             in case Paragraph L display_title of
                  Some e \<Rightarrow> Inl e
                | None \<Rightarrow>
                    let doc = \<lparr>pagesize = page_size, title = display_title, table_data = cells\<rparr>
                    in case doc_build L doc of
                         Some e \<Rightarrow> Inl e
                       | None \<Rightarrow> Inr doc)"

section \<open>The route \<open>convert\<close>\<close>

text \<open>
  The uploaded file is seen through pandas: \<open>sheet_names\<close> is what
  \<open>pd.ExcelFile(input_path).sheet_names\<close> gives or raises, and
  \<open>read_excel engine sheet_name\<close> what \<open>pd.read_excel\<close> gives or raises for a sheet
  with the given engine.
\<close>

datatype engine = Openpyxl

record excel_file =
  sheet_names :: "exn + pystr list"
  read_excel :: "engine option \<Rightarrow> pystr \<Rightarrow> exn + dataframe"

text \<open>
  \<open>filename.lower().endswith('xlsx')\<close>. Only the letters A to Z are lowered here: no
  character outside ASCII has a lower case that is x, l or s, so the test is the same.
\<close>

definition lower :: "pystr \<Rightarrow> pystr" where
  "lower s = map (\<lambda>c. if 65 \<le> c \<and> c \<le> 90 then c + 32 else c) s"

definition endswith :: "pystr \<Rightarrow> pystr \<Rightarrow> bool" where
  "endswith s suffix =
     (length suffix \<le> length s \<and> drop (length s - length suffix) s = suffix)"

text \<open>Lines 129 to 134: the read with the chosen engine, and on any exception the plain read.\<close>

definition read_sheet :: "pystr \<Rightarrow> excel_file \<Rightarrow> pystr \<Rightarrow> exn + dataframe" where
  "read_sheet filename file sheet_name =
     (let engine = (if endswith (lower filename) (ustr ''xlsx'') then Some Openpyxl else None)
      in case read_excel file engine sheet_name of
           Inr df \<Rightarrow> Inr df
         | Inl _ \<Rightarrow> read_excel file None sheet_name)"

text \<open>
  \<open>df.dropna(how='all')\<close> drops the data rows whose values are all missing, and
  \<open>DataFrame.empty\<close> holds when an axis has length zero.
\<close>

definition dropna_all :: "dataframe \<Rightarrow> dataframe" where
  "dropna_all df = df\<lparr>rows := filter (\<lambda>r. \<not> list_all isna r) (rows df)\<rparr>"

definition empty_df :: "dataframe \<Rightarrow> bool" where
  "empty_df df = (columns df = [] \<or> rows df = [])"

text \<open>
  The state of the loop of lines 127 to 212: the files written to the working directory,
  by name (a sanitized name has no path separator, so \<open>pdf_path\<close> is the file of that
  name in \<open>workdir\<close>; writing a name again replaces the file), and the list
  \<open>pdf_paths\<close>. An exception of a read (after the second attempt) or of ReportLab
  ends the loop.
\<close>

record loop_state =
  workdir :: "pystr \<rightharpoonup> document"
  pdf_paths :: "pystr list"

definition pdf_filename :: "pystr \<Rightarrow> pystr" where
  "pdf_filename sheet_name = sanitize_filename sheet_name @ ustr ''.pdf''"

fun process_sheets ::
  "libs \<Rightarrow> pystr \<Rightarrow> excel_file \<Rightarrow> pystr list \<Rightarrow> loop_state \<Rightarrow> exn + loop_state" where
  "process_sheets L filename file [] st = Inr st"
| "process_sheets L filename file (sheet_name # rest) st =
     (case read_sheet filename file sheet_name of
        Inl e \<Rightarrow> Inl e
      | Inr df \<Rightarrow>
          if empty_df (dropna_all df) then process_sheets L filename file rest st
          else
            let data = df_to_table_data L df;
                pdf_path = pdf_filename sheet_name
            in case build_document L sheet_name data of
                 Inl e \<Rightarrow> Inl e
               | Inr doc \<Rightarrow>
                   process_sheets L filename file rest
                     \<lparr>workdir = (workdir st)(pdf_path \<mapsto> doc),
                      pdf_paths = pdf_paths st @ [pdf_path]\<rparr>)"

text \<open>
  Lines 220 to 222: every path of \<open>pdf_paths\<close> is written to the archive under its
  base name, with the content the file has then; a missing file raises.
\<close>

fun zip_write :: "(pystr \<rightharpoonup> document) \<Rightarrow> pystr list \<Rightarrow> exn + (pystr \<times> document) list" where
  "zip_write fs [] = Inr []"
| "zip_write fs (p # ps) =
     (case fs p of
        None \<Rightarrow> Inl (Exn (ustr ''FileNotFoundError''))
      | Some d \<Rightarrow>
          (case zip_write fs ps of
             Inl e \<Rightarrow> Inl e
           | Inr entries \<Rightarrow> Inr ((p, d) # entries)))"

text \<open>
  The outcomes of the route: a flashed message of a category with the redirect to the
  index page, the archive sent (its entries in order; the download name is left out), or
  an exception that nothing catches.
\<close>

datatype category = Danger | Warning

datatype response =
    Redirect category pystr
  | Send_file "(pystr \<times> document) list"
  | Unhandled exn

text \<open>
  Lines 117 to 227, \<open>filename\<close> being the secured name of an upload that passed the
  checks of lines 97 to 108 and was saved to the working directory. The working
  directory is removed whatever the outcome.
\<close>

definition convert :: "libs \<Rightarrow> pystr \<Rightarrow> excel_file \<Rightarrow> response" where
  "convert L filename file =
     (case sheet_names file of
        Inl e \<Rightarrow> Redirect Danger (ustr ''Failed to read Excel file: '' @ (case e of Exn msg \<Rightarrow> msg))
      | Inr names \<Rightarrow>
          (case process_sheets L filename file names \<lparr>workdir = Map.empty, pdf_paths = []\<rparr> of
             Inl e \<Rightarrow> Unhandled e
           | Inr st \<Rightarrow>
               if pdf_paths st = [] then
                 Redirect Warning (ustr ''No non-empty sheets found in the uploaded Excel file.'')
               else
                 (case zip_write (workdir st) (pdf_paths st) of
                    Inl e \<Rightarrow> Unhandled e
                  | Inr entries \<Rightarrow> Send_file entries)))"

text \<open>The documents a response carries.\<close>

fun documents :: "response \<Rightarrow> (pystr \<times> document) list" where
  "documents (Send_file entries) = entries"
| "documents _ = []"

section \<open>Notions of the specification\<close>

text \<open>
  The grid of a sheet is its header row followed by its data rows. The specification
  calls a sheet non-empty when some cell in some row of the grid is not empty;
  \<open>has_data\<close> asks the same of the data rows only. A DataFrame is rectangular: every
  data row has one cell per column.
\<close>

text \<open>
  Stand-ins for the libraries, to run the functions on concrete inputs. Of ReportLab
  they keep one behaviour: a paragraph of the lone closing tag \<open></b>\<close> does not
  parse, and raises.
\<close>

definition sample_libs :: libs where
  "sample_libs =
     \<lparr>reshape = id, get_display = rev,
      Paragraph = (\<lambda>text. if text = ustr ''</b>'' then Some (Exn (ustr ''Parse error'')) else None),
      doc_build = (\<lambda>doc. None)\<rparr>"

text \<open>
  A workbook of two sheets for running the route: the first has a header row and one
  data row, the second is blank (pandas reads it as a frame with no columns and no rows).
\<close>

definition people :: dataframe where
  "people =
     \<lparr>columns = [CStr [0x627, 0x644, 0x627, 0x633, 0x645], CStr [0x627, 0x644, 0x639, 0x645, 0x631]],
      rows = [[CStr [0x645, 0x62D, 0x645, 0x62F], CInt 30]]\<rparr>"

definition blank :: dataframe where
  "blank = \<lparr>columns = [], rows = []\<rparr>"

definition sample_file :: excel_file where
  "sample_file =
     \<lparr>sheet_names = Inr [ustr ''A/1'', ustr ''B''],
      read_excel = (\<lambda>engine name.
        if name = ustr ''A/1'' then Inr people
        else if name = ustr ''B'' then Inr blank
        else Inl (Exn (ustr ''Worksheet not found'')))\<rparr>"

text \<open>
  Three more workbooks of sheets that pandas reads: one sheet with a header row and no
  row below it; one sheet with a cell that ReportLab does not parse; two sheets with
  data whose names are sanitized to the same name.
\<close>

definition header_only_file :: excel_file where
  "header_only_file =
     \<lparr>sheet_names = Inr [ustr ''S''],
      read_excel = (\<lambda>engine name. Inr \<lparr>columns = [CStr (ustr ''a'')], rows = []\<rparr>)\<rparr>"

definition markup_file :: excel_file where
  "markup_file =
     \<lparr>sheet_names = Inr [ustr ''S''],
      read_excel = (\<lambda>engine name.
        Inr \<lparr>columns = [CStr (ustr ''h'')], rows = [[CStr (ustr ''</b>'')]]\<rparr>)\<rparr>"

definition clash_file :: excel_file where
  "clash_file =
     \<lparr>sheet_names = Inr [ustr ''a'', ustr ''a|''],
      read_excel = (\<lambda>engine name.
        if name = ustr ''a'' then Inr \<lparr>columns = [CStr (ustr ''h'')], rows = [[CStr (ustr ''x'')]]\<rparr>
        else Inr \<lparr>columns = [CStr (ustr ''h'')], rows = [[CStr (ustr ''y'')]]\<rparr>)\<rparr>"



definition has_data :: "dataframe \<Rightarrow> bool" where
  "has_data df = list_ex (list_ex (\<lambda>c. \<not> isna c)) (rows df)"

definition rectangular :: "dataframe \<Rightarrow> bool" where
  "rectangular df = list_all (\<lambda>r. length r = length (columns df)) (rows df)"

section \<open>Auxiliary facts\<close>

lemma shape_cells_map:
  "shape_cells L cells row = row @ map (\<lambda>c. if isna c then [] else reshape_rtl L c) cells"
  by (induction cells arbitrary: row) auto

lemma shape_rows_map:
  "shape_rows L rs acc = acc @ map (map (\<lambda>c. if isna c then [] else reshape_rtl L c)) rs"
  by (induction rs arbitrary: acc) (auto simp: shape_cells_map)

lemma df_to_table_data_eq:
  "df_to_table_data L df =
     map (reshape_rtl L) (columns df) #
     map (map (\<lambda>c. if isna c then [] else reshape_rtl L c)) (rows df)"
  by (simp add: df_to_table_data_def shape_rows_map)

lemma strip_decomp:
  "\<exists>pre suf. s = pre @ strip s @ suf \<and> list_all py_isspace pre \<and> list_all py_isspace suf"
proof -
  let ?a = "takeWhile py_isspace s" and ?m = "dropWhile py_isspace s"
  let ?b = "takeWhile py_isspace (rev ?m)"
  have "rev ?m = ?b @ dropWhile py_isspace (rev ?m)" by simp
  then have "?m = strip s @ rev ?b"
    unfolding strip_def by (metis rev_append rev_rev_ident)
  then have "s = ?a @ strip s @ rev ?b"
    by (metis takeWhile_dropWhile_id)
  moreover have "list_all py_isspace ?a"
    by (simp add: list_all_iff) (metis set_takeWhileD)
  moreover have "list_all py_isspace (rev ?b)"
    by (simp add: list_all_iff) (metis set_takeWhileD)
  ultimately show ?thesis by blast
qed

lemma strip_ends:
  assumes ne: "strip s \<noteq> []"
  shows "\<not> py_isspace (hd (strip s)) \<and> \<not> py_isspace (last (strip s))"
proof -
  let ?m = "dropWhile py_isspace s"
  let ?d = "dropWhile py_isspace (rev ?m)"
  from ne have d: "?d \<noteq> []" by (simp add: strip_def)
  then have "\<not> py_isspace (hd ?d)" by (rule hd_dropWhile)
  then have l: "\<not> py_isspace (last (strip s))"
    using d by (simp add: strip_def last_rev)
  from d have m: "?m \<noteq> []"
    by (metis dropWhile.simps(1) rev.simps(1))
  then have hm: "\<not> py_isspace (hd ?m)" by (rule hd_dropWhile)
  have "\<exists>b. ?m = strip s @ b"
    unfolding strip_def by (metis rev_append rev_rev_ident takeWhile_dropWhile_id)
  then have "hd ?m = hd (strip s)" using ne by auto
  with hm l show ?thesis by simp
qed

lemma all_missing_empty:
  "\<forall>r \<in> set (rows df). \<forall>c \<in> set r. isna c \<Longrightarrow> empty_df (dropna_all df)"
  by (simp add: empty_df_def dropna_all_def filter_empty_conv list_all_iff)


lemma process_sheets_append:
  "process_sheets L fn f (xs @ ys) st =
     (case process_sheets L fn f xs st of
        Inl e \<Rightarrow> Inl e
      | Inr st' \<Rightarrow> process_sheets L fn f ys st')"
  by (induction xs arbitrary: st) (auto simp: Let_def split: sum.splits)

lemma read_sheet_names_update [simp]:
  "read_sheet fn (f\<lparr>sheet_names := x\<rparr>) n = read_sheet fn f n"
  by (simp add: read_sheet_def split: sum.splits)

lemma process_sheets_names_update [simp]:
  "process_sheets L fn (f\<lparr>sheet_names := x\<rparr>) ns st = process_sheets L fn f ns st"
  by (induction ns arbitrary: st) (auto simp: Let_def split: sum.splits)

lemma process_sheets_skip:
  assumes "read_sheet fn f n = Inr df" and "empty_df (dropna_all df)"
  shows "process_sheets L fn f (before @ n # after) st = process_sheets L fn f (before @ after) st"
  using assms by (simp add: process_sheets_append split: sum.splits)

lemma process_sheets_all_empty:
  assumes "\<forall>n \<in> set names. \<exists>df. read_sheet fn f n = Inr df \<and> empty_df (dropna_all df)"
  shows "process_sheets L fn f names st = Inr st"
  using assms by (induction names arbitrary: st) auto




lemma build_document_pagesize:
  "build_document L name data = Inr doc \<Longrightarrow> pagesize doc = choose_page_size data"
  by (auto simp: build_document_def Let_def split: option.splits)

lemmas run_defs =
  convert_def sample_file_def header_only_file_def markup_file_def clash_file_def people_def blank_def read_sheet_def empty_df_def dropna_all_def
  pdf_filename_def sanitize_filename_def strip_def invalid_def py_isspace_def
  df_to_table_data_def build_document_def choose_page_size_def A4_def landscape_def
  replace_newlines_def reshape_rtl_def sample_libs_def is_arabic_def ustr_def int_str_def
  nat_str.simps endswith_def lower_def rectangular_def has_data_def Let_def

section \<open>The shaper\<close>

text \<open>
  C2. For every input string with no code point in U+0600 to U+06FF, U+0750 to U+077F or
  U+08A0 to U+08FF, \<open>reshape_rtl\<close> returns the string itself, which is its own
  \<open>str()\<close>, whatever the reshaping and bidi libraries would do.
\<close>

theorem reshape_rtl_no_arabic_unchanged:
  assumes "\<forall>ch \<in> set s. \<not> (0x0600 \<le> ch \<and> ch \<le> 0x06FF) \<and> \<not> (0x0750 \<le> ch \<and> ch \<le> 0x077F)
             \<and> \<not> (0x08A0 \<le> ch \<and> ch \<le> 0x08FF)"
  shows "reshape_rtl L (CStr s) = py_str (CStr s) \<and> py_str (CStr s) = s"
proof -
  from assms have "\<not> list_ex is_arabic s"
    by (auto simp: list_ex_iff is_arabic_def)
  then show ?thesis
    by (simp add: reshape_rtl_def)
qed

theorem reshape_rtl_no_arabic_unchanged_witness:
  "reshape_rtl sample_libs (CStr (ustr ''ab 1'')) = ustr ''ab 1''"
proof -
  have h: "\<forall>ch \<in> set (ustr ''ab 1''). \<not> (0x0600 \<le> ch \<and> ch \<le> 0x06FF) \<and>
      \<not> (0x0750 \<le> ch \<and> ch \<le> 0x077F) \<and> \<not> (0x08A0 \<le> ch \<and> ch \<le> 0x08FF)"
    by (simp add: ustr_def)
  from reshape_rtl_no_arabic_unchanged [OF h, of sample_libs] show ?thesis
    by simp
qed

text \<open>
  C3, as the claim states it, fails: \<open>reshape_rtl\<close> tests for \<open>None\<close> only, and for a
  NaN it returns the text of \<open>str(float('nan'))\<close>.
\<close>

theorem reshape_rtl_nan_counterexample:
  "isna CNaN \<and> reshape_rtl sample_libs CNaN = ustr ''nan'' \<and> reshape_rtl sample_libs CNaN \<noteq> []"
  by (simp add: reshape_rtl_def ustr_def is_arabic_def)

text \<open>
  C3, amended. \<open>reshape_rtl\<close> returns the empty string for \<open>None\<close>; and a missing
  data cell (\<open>None\<close> or NaN), wherever it stands in a data row, is the empty string in
  the grid of \<open>df_to_table_data\<close>, which tests \<open>pd.isna\<close> before it calls
  \<open>reshape_rtl\<close>.
\<close>

theorem missing_cell_becomes_empty:
  "reshape_rtl L CNone = [] \<and>
   (isna c \<longrightarrow>
      df_to_table_data L \<lparr>columns = hs, rows = rs1 @ (pre @ c # post) # rs2\<rparr>
        ! Suc (length rs1) ! length pre = [])"
  by (simp add: reshape_rtl_def df_to_table_data_eq nth_append)

theorem missing_cell_becomes_empty_witness:
  "reshape_rtl sample_libs CNone = [] \<and> isna CNaN \<and>
   df_to_table_data sample_libs
     \<lparr>columns = [CStr (ustr ''a''), CStr (ustr ''b'')], rows = [[CInt 1, CNaN]]\<rparr> ! 1 ! 1 = []"
  using missing_cell_becomes_empty
    [of sample_libs CNaN "[CStr (ustr ''a''), CStr (ustr ''b'')]" "[]" "[CInt 1]" "[]" "[]"]
  by simp

section \<open>The shaped grid\<close>



section \<open>Document names\<close>

text \<open>
  C4, as the claim states it, fails: after the nine characters are removed the name is
  also stripped of leading and trailing whitespace, so a leading space is not kept, and
  a name of one space becomes the default name though the removal left it non-empty.
\<close>

theorem sanitize_filename_space_counterexample:
  "filter (\<lambda>c. c \<notin> set invalid) [32, 97] = [32, 97] \<and> sanitize_filename [32, 97] = [97] \<and>
   filter (\<lambda>c. c \<notin> set invalid) [32] = [32] \<and> sanitize_filename [32] = ustr ''sheet''"
  by (simp add: sanitize_filename_def strip_def invalid_def py_isspace_def ustr_def)

text \<open>
  C4, amended. The name with the nine characters removed is \<open>pre @ core @ suf\<close>, where
  \<open>pre\<close> and \<open>suf\<close> are whitespace and \<open>core\<close> neither starts nor ends with
  whitespace; the sanitized name is \<open>core\<close>, every other character kept in place, or
  the default name \<open>sheet\<close> when \<open>core\<close> is empty.
\<close>

theorem sanitize_filename_removes_and_strips:
  "\<exists>pre core suf.
     filter (\<lambda>c. c \<notin> set invalid) name = pre @ core @ suf \<and>
     list_all py_isspace pre \<and> list_all py_isspace suf \<and>
     (core = [] \<or> \<not> py_isspace (hd core) \<and> \<not> py_isspace (last core)) \<and>
     sanitize_filename name = (if core = [] then ustr ''sheet'' else core)"
proof -
  let ?f = "filter (\<lambda>c. c \<notin> set invalid) name"
  obtain pre suf where "?f = pre @ strip ?f @ suf" "list_all py_isspace pre" "list_all py_isspace suf"
    using strip_decomp by blast
  moreover have "strip ?f = [] \<or> \<not> py_isspace (hd (strip ?f)) \<and> \<not> py_isspace (last (strip ?f))"
    using strip_ends by blast
  moreover have "sanitize_filename name = (if strip ?f = [] then ustr ''sheet'' else strip ?f)"
    by (simp add: sanitize_filename_def Let_def)
  ultimately show ?thesis by blast
qed

theorem sanitize_filename_removes_and_strips_witness:
  "sanitize_filename [32, 0x627, 47, 0x628, 32, 58, 120, 32] = [0x627, 0x628, 32, 120] \<and>
   sanitize_filename [47, 32, 58] = ustr ''sheet''"
  using sanitize_filename_removes_and_strips [of "[32, 0x627, 47, 0x628, 32, 58, 120, 32]"]
  by (simp add: sanitize_filename_def strip_def invalid_def py_isspace_def ustr_def)

section \<open>Page orientation\<close>

text \<open>
  C5. For a grid whose header row has at most 6 columns the page size chosen is A4 as
  it is (portrait, 210 by 297), for one whose header row has 7 or more it is landscape
  A4 (297 by 210), and every document built of the grid has the page size chosen; for
  the grid of a frame the header row has one entry per column.
\<close>

theorem page_size_by_header_width:
  "(length header \<le> 6 \<longrightarrow>
      choose_page_size (header # body) = A4 \<and>
      (\<forall>doc. build_document L name (header # body) = Inr doc \<longrightarrow> pagesize doc = A4)) \<and>
   (7 \<le> length header \<longrightarrow>
      choose_page_size (header # body) = landscape A4 \<and>
      (\<forall>doc. build_document L name (header # body) = Inr doc \<longrightarrow> pagesize doc = landscape A4)) \<and>
   choose_page_size (df_to_table_data L df) =
     (if length (columns df) \<le> 6 then A4 else landscape A4) \<and>
   (\<forall>doc. build_document L name (df_to_table_data L df) = Inr doc \<longrightarrow>
      pagesize doc = (if length (columns df) \<le> 6 then A4 else landscape A4)) \<and>
   A4 = (210, 297) \<and> landscape A4 = (297, 210)"
proof (intro conjI impI allI)
  show "choose_page_size (header # body) = A4" if "length header \<le> 6"
    using that by (simp add: choose_page_size_def)
  then show "pagesize doc = A4"
    if "length header \<le> 6" "build_document L name (header # body) = Inr doc" for doc
    using that build_document_pagesize by fastforce
  show l: "choose_page_size (header # body) = landscape A4" if "7 \<le> length header"
    using that by (simp add: choose_page_size_def)
  show "pagesize doc = landscape A4"
    if "7 \<le> length header" "build_document L name (header # body) = Inr doc" for doc
    using that l build_document_pagesize by fastforce
  show f: "choose_page_size (df_to_table_data L df) =
      (if length (columns df) \<le> 6 then A4 else landscape A4)"
    by (simp add: choose_page_size_def df_to_table_data_eq)
  show "pagesize doc = (if length (columns df) \<le> 6 then A4 else landscape A4)"
    if "build_document L name (df_to_table_data L df) = Inr doc" for doc
    using that f build_document_pagesize by fastforce
  show "A4 = (210, 297)" by (simp add: A4_def)
  show "landscape A4 = (297, 210)" by (simp add: A4_def landscape_def)
qed

theorem page_size_by_header_width_witness:
  "build_document sample_libs (ustr ''S'') [[[104], [104], [104], [104], [104], [104]]] =
     Inr \<lparr>pagesize = (210, 297), title = ustr ''S'',
          table_data = [[[104], [104], [104], [104], [104], [104]]]\<rparr> \<and>
   build_document sample_libs (ustr ''S'') [[[104], [104], [104], [104], [104], [104], [104]]] =
     Inr \<lparr>pagesize = (297, 210), title = ustr ''S'',
          table_data = [[[104], [104], [104], [104], [104], [104], [104]]]\<rparr>"
proof -
  let ?h6 = "[[104], [104], [104], [104], [104], [104]] :: pystr list"
  let ?h7 = "[[104], [104], [104], [104], [104], [104], [104]] :: pystr list"
  have b6: "build_document sample_libs (ustr ''S'') [?h6] =
      Inr \<lparr>pagesize = choose_page_size [?h6], title = ustr ''S'', table_data = [?h6]\<rparr>"
    by (simp add: build_document_def replace_newlines_def reshape_rtl_def
        sample_libs_def is_arabic_def ustr_def Let_def)
  have b7: "build_document sample_libs (ustr ''S'') [?h7] =
      Inr \<lparr>pagesize = choose_page_size [?h7], title = ustr ''S'', table_data = [?h7]\<rparr>"
    by (simp add: build_document_def replace_newlines_def reshape_rtl_def
        sample_libs_def is_arabic_def ustr_def Let_def)
  have l6: "length ?h6 \<le> 6" and l7: "7 \<le> length ?h7"
    by simp_all
  from page_size_by_header_width [of ?h6 "[]" sample_libs "ustr ''S''"] l6
  have p6: "choose_page_size [?h6] = (210, 297)"
    by metis
  from page_size_by_header_width [of ?h7 "[]" sample_libs "ustr ''S''"] l7
  have p7: "choose_page_size [?h7] = (297, 210)"
    by metis
  from b6 b7 p6 p7 show ?thesis
    by (simp only:)
qed

section \<open>The route\<close>

text \<open>
  C6. A sheet that is read and whose data rows hold only missing cells leaves the
  outcome of the route what it is for the workbook without that sheet: no document is
  made for it, nothing is raised for it, and the sheets after it are processed.
\<close>

theorem empty_sheet_skipped:
  assumes "sheet_names file = Inr (before @ sheet_name # after)"
    and "read_sheet filename file sheet_name = Inr df"
    and "\<forall>r \<in> set (rows df). \<forall>c \<in> set r. isna c"
  shows "convert L filename file = convert L filename (file\<lparr>sheet_names := Inr (before @ after)\<rparr>)"
proof -
  have "empty_df (dropna_all df)"
    using assms(3) by (rule all_missing_empty)
  with assms(2) have "process_sheets L filename file (before @ sheet_name # after) st =
      process_sheets L filename file (before @ after) st" for st
    by (rule process_sheets_skip)
  with assms(1) show ?thesis
    by (simp add: convert_def)
qed

theorem empty_sheet_skipped_witness:
  "convert sample_libs (ustr ''book.xlsx'') sample_file =
   convert sample_libs (ustr ''book.xlsx'') (sample_file\<lparr>sheet_names := Inr [ustr ''A/1'']\<rparr>) \<and>
   map fst (documents (convert sample_libs (ustr ''book.xlsx'')
      (sample_file\<lparr>sheet_names := Inr [ustr ''A/1'']\<rparr>))) = [ustr ''A1.pdf'']"
proof -
  have h1: "sheet_names sample_file = Inr ([ustr ''A/1''] @ ustr ''B'' # [])"
    by (simp add: sample_file_def)
  have h2: "read_sheet (ustr ''book.xlsx'') sample_file (ustr ''B'') = Inr blank"
    by (simp add: read_sheet_def sample_file_def ustr_def)
  have h3: "\<forall>r \<in> set (rows blank). \<forall>c \<in> set r. isna c"
    by (simp add: blank_def)
  have "map fst (documents (convert sample_libs (ustr ''book.xlsx'')
      (sample_file\<lparr>sheet_names := Inr [ustr ''A/1'']\<rparr>))) = [ustr ''A1.pdf'']"
    by (simp add: run_defs)
  with empty_sheet_skipped [OF h1 h2 h3, of sample_libs] show ?thesis
    by simp
qed

text \<open>
  C8. When the workbook cannot be opened, the route flashes the failure with its
  message in the category \<open>danger\<close> and redirects: the response carries no document.
\<close>

theorem unreadable_workbook_aborts:
  assumes "sheet_names file = Inl e"
  shows "convert L filename file =
           Redirect Danger (ustr ''Failed to read Excel file: '' @ (case e of Exn msg \<Rightarrow> msg)) \<and>
         documents (convert L filename file) = []"
  using assms by (simp add: convert_def)

theorem unreadable_workbook_aborts_witness:
  "convert sample_libs (ustr ''book.xlsx'')
     (sample_file\<lparr>sheet_names := Inl (Exn (ustr ''File is not a zip file''))\<rparr>)
   = Redirect Danger (ustr ''Failed to read Excel file: File is not a zip file'')"
proof -
  have h: "sheet_names (sample_file\<lparr>sheet_names := Inl (Exn (ustr ''File is not a zip file''))\<rparr>)
      = Inl (Exn (ustr ''File is not a zip file''))"
    by simp
  from unreadable_workbook_aborts [OF h, of sample_libs "ustr ''book.xlsx''"] show ?thesis
    by (simp add: ustr_def)
qed

text \<open>
  C9. When the workbook is opened and every sheet is read with only missing cells in
  its data rows, the route flashes the message that no non-empty sheet was found, in
  the category \<open>warning\<close>, and redirects; no workbook that cannot be opened has this
  outcome.
\<close>

theorem all_empty_is_warning:
  assumes "sheet_names file = Inr names"
    and "\<forall>n \<in> set names. \<exists>df. read_sheet filename file n = Inr df \<and>
           (\<forall>r \<in> set (rows df). \<forall>c \<in> set r. isna c)"
  shows "convert L filename file =
           Redirect Warning (ustr ''No non-empty sheets found in the uploaded Excel file.'') \<and>
         (\<forall>L' filename' file' e. sheet_names file' = Inl e \<longrightarrow>
            convert L' filename' file' \<noteq> convert L filename file)"
proof -
  from assms(2) have "\<forall>n \<in> set names. \<exists>df. read_sheet filename file n = Inr df \<and> empty_df (dropna_all df)"
    using all_missing_empty by blast
  then have "process_sheets L filename file names st = Inr st" for st
    by (rule process_sheets_all_empty)
  with assms(1) have w: "convert L filename file =
      Redirect Warning (ustr ''No non-empty sheets found in the uploaded Excel file.'')"
    by (simp add: convert_def)
  have "convert L' filename' file' \<noteq> convert L filename file" if "sheet_names file' = Inl e"
    for L' filename' file' e
    using that w by (simp add: convert_def)
  with w show ?thesis by blast
qed

theorem all_empty_is_warning_witness:
  "convert sample_libs (ustr ''book.xlsx'') (sample_file\<lparr>sheet_names := Inr [ustr ''B'', ustr ''B'']\<rparr>)
   = Redirect Warning (ustr ''No non-empty sheets found in the uploaded Excel file.'')"
proof -
  have h1: "sheet_names (sample_file\<lparr>sheet_names := Inr [ustr ''B'', ustr ''B'']\<rparr>)
      = Inr [ustr ''B'', ustr ''B'']"
    by simp
  have "read_sheet (ustr ''book.xlsx'') sample_file (ustr ''B'') = Inr blank"
    by (simp add: read_sheet_def sample_file_def ustr_def)
  then have h2: "\<forall>n \<in> set [ustr ''B'', ustr ''B''].
      \<exists>df. read_sheet (ustr ''book.xlsx'') (sample_file\<lparr>sheet_names := Inr [ustr ''B'', ustr ''B'']\<rparr>) n = Inr df \<and>
           (\<forall>r \<in> set (rows df). \<forall>c \<in> set r. isna c)"
    by (simp add: blank_def)
  from all_empty_is_warning [OF h1 h2, of sample_libs] show ?thesis
    by simp
qed




end
